theory Spec2Isabelle
  imports Complex_Main
begin

section \<open>Values of the request bodies\<close>

text \<open>
  The handlers of \<^verbatim>\<open>src/src/backend/index.ts\<close> destructure \<^verbatim>\<open>req.body\<close>, which
  \<^verbatim>\<open>express.json()\<close> parsed: each field is a JSON value, or \<^verbatim>\<open>undefined\<close> when the
  body does not have it. The TypeScript types of the fields are not checked at run
  time, so every field is a \<open>jvalue\<close>. A JSON number is a double; the code only asks
  whether it is zero, and it is a \<open>real\<close> here.
\<close>

datatype jvalue =
    JUndefined
  | JNull
  | JBool bool
  | JNum real
  | JStr string
  | JArr "jvalue list"
  | JObj "(string \<times> jvalue) list"

text \<open>JavaScript's ToBoolean, as \<^verbatim>\<open>!x\<close> and \<^verbatim>\<open>if (x)\<close> use it.\<close>

fun truthy :: "jvalue \<Rightarrow> bool" where
  "truthy JUndefined = False"
| "truthy JNull = False"
| "truthy (JBool b) = b"
| "truthy (JNum n) = (n \<noteq> 0)"
| "truthy (JStr s) = (s \<noteq> [])"
| "truthy (JArr xs) = True"
| "truthy (JObj kvs) = True"

text \<open>
  JavaScript's ToString, as a template literal \<^verbatim>\<open>`${x}`\<close> uses it. The text of a number
  (Number::toString) is the parameter \<open>ns\<close>.
\<close>

fun intersperse :: "string \<Rightarrow> string list \<Rightarrow> string" where
  "intersperse sep [] = []"
| "intersperse sep [x] = x"
| "intersperse sep (x # y # ys) = x @ sep @ intersperse sep (y # ys)"

fun js_toString :: "(real \<Rightarrow> string) \<Rightarrow> jvalue \<Rightarrow> string" where
  "js_toString ns JUndefined = ''undefined''"
| "js_toString ns JNull = ''null''"
| "js_toString ns (JBool b) = (if b then ''true'' else ''false'')"
| "js_toString ns (JNum n) = ns n"
| "js_toString ns (JStr s) = s"
| "js_toString ns (JArr xs) =
     intersperse '','' (map (\<lambda>x. if x = JUndefined \<or> x = JNull then [] else js_toString ns x) xs)"
| "js_toString ns (JObj kvs) = ''[object Object]''"

section \<open>The records and the three stores\<close>

text \<open>
  \<^verbatim>\<open>type Doctor\<close> and \<^verbatim>\<open>type Patient\<close> of index.ts. The identifiers are the strings
  \<^verbatim>\<open>uuidv4()\<close> returned; every other field holds the request's value as it came.
  The \<^verbatim>\<open>name\<close> of a doctor is \<open>doctorName\<close> here, the \<^verbatim>\<open>name\<close> of a patient is \<open>name\<close>.
\<close>

record doctor =
  doctorId :: string
  doctorName :: jvalue
  role :: jvalue
  department :: jvalue

record patient =
  patientId :: string
  name :: jvalue
  age :: jvalue
  medicalHistory :: jvalue
  currentTreatment :: jvalue
  assignedDoctor :: jvalue
  reports :: "jvalue list"

text \<open>
  The three \<^verbatim>\<open>StableBTreeMap\<close>s, by their contract: \<^verbatim>\<open>insert\<close> overwrites, \<^verbatim>\<open>get\<close> of a
  key never inserted is absent, \<^verbatim>\<open>remove\<close> of an absent key does nothing. A key is the
  value the handler passes (a path parameter is a string, a body field any JSON value).
  The audit log is keyed by the timestamp text. The stores are kept apart here, as the
  comments on their declarations have them; the memory they share is modelled further
  down.
\<close>

record state =
  doctors :: "jvalue \<rightharpoonup> doctor"
  patients :: "jvalue \<rightharpoonup> patient"
  auditLogs :: "string \<rightharpoonup> string"

definition emptyState :: state where
  "emptyState = \<lparr>doctors = Map.empty, patients = Map.empty, auditLogs = Map.empty\<rparr>"

text \<open>
  A response that is not a success: \<^verbatim>\<open>res.status(n).json({ error: msg })\<close>. The spec's
  ValidationError is status 400, NotFound and IndexOutOfRange are 404, PermissionDenied
  is 403, and the \<^verbatim>\<open>catch\<close> block answers 500.
\<close>

datatype error = Error nat string

section \<open>Audit logging\<close>

text \<open>
  \<^verbatim>\<open>logAction(userId, action)\<close>: \<open>timestamp\<close> is what \<^verbatim>\<open>new Date().toISOString()\<close>
  returned at the call.
\<close>

definition logAction :: "(real \<Rightarrow> string) \<Rightarrow> string \<Rightarrow> jvalue \<Rightarrow> string \<Rightarrow> state \<Rightarrow> state" where
  "logAction ns timestamp userId action s =
     s\<lparr>auditLogs := (auditLogs s)(timestamp \<mapsto> js_toString ns userId @ '' - '' @ action)\<rparr>"

section \<open>Doctors\<close>

text \<open>\<^verbatim>\<open>app.post('/doctors')\<close>; \<open>uuid\<close> is what \<^verbatim>\<open>uuidv4()\<close> returned.\<close>

definition createDoctor ::
  "(real \<Rightarrow> string) \<Rightarrow> string \<Rightarrow> string \<Rightarrow> jvalue \<Rightarrow> jvalue \<Rightarrow> jvalue \<Rightarrow> state \<Rightarrow> (error + doctor) \<times> state" where
  "createDoctor ns timestamp uuid nm rl dept s =
     (if \<not> truthy nm \<or> \<not> truthy rl \<or> \<not> truthy dept then (Inl (Error 400 ''Invalid input''), s)
      else
        let newDoctor = \<lparr>doctorId = uuid, doctorName = nm, role = rl, department = dept\<rparr>;
            s1 = s\<lparr>doctors := (doctors s)(JStr (doctorId newDoctor) \<mapsto> newDoctor)\<rparr>;
            s2 = logAction ns timestamp (JStr (doctorId newDoctor)) ''Added new doctor'' s1
        in (Inr newDoctor, s2))"

text \<open>\<^verbatim>\<open>app.get('/doctors/:doctorId')\<close>\<close>

definition getDoctor :: "string \<Rightarrow> state \<Rightarrow> error + doctor" where
  "getDoctor did s =
     (case doctors s (JStr did) of
        Some d \<Rightarrow> Inr d
      | None \<Rightarrow> Inl (Error 404 ''Doctor not found''))"

section \<open>Patients\<close>

text \<open>\<^verbatim>\<open>class PatientDto\<close> and \<^verbatim>\<open>validatePatientInput\<close>.\<close>

record patientDto =
  dtoPatientId :: string
  dtoName :: jvalue
  dtoAge :: jvalue
  dtoMedicalHistory :: jvalue
  dtoCurrentTreatment :: jvalue
  dtoAssignedDoctor :: jvalue

definition validatePatientInput :: "patientDto \<Rightarrow> bool" where
  "validatePatientInput input =
     (if \<not> truthy (JStr (dtoPatientId input)) \<or> \<not> truthy (dtoName input) \<or>
         \<not> truthy (dtoAge input) \<or> \<not> truthy (dtoAssignedDoctor input)
      then False else True)"

text \<open>The nullish coalescing \<^verbatim>\<open>a ?? b\<close>.\<close>

definition nullish :: "jvalue \<Rightarrow> jvalue \<Rightarrow> jvalue" where
  "nullish a b = (if a = JUndefined \<or> a = JNull then b else a)"

text \<open>\<^verbatim>\<open>app.post('/patients')\<close>; \<open>uuid\<close> is what \<^verbatim>\<open>uuidv4()\<close> returned.\<close>

definition createPatient ::
  "(real \<Rightarrow> string) \<Rightarrow> string \<Rightarrow> string \<Rightarrow> jvalue \<Rightarrow> jvalue \<Rightarrow> jvalue \<Rightarrow> jvalue \<Rightarrow> jvalue \<Rightarrow> state
     \<Rightarrow> (error + patient) \<times> state" where
  "createPatient ns timestamp uuid nm ag mh ct ad s =
     (let patientInput = \<lparr>dtoPatientId = uuid, dtoName = nm, dtoAge = ag,
            dtoMedicalHistory = mh, dtoCurrentTreatment = ct, dtoAssignedDoctor = ad\<rparr>
      in if \<not> validatePatientInput patientInput
         then (Inl (Error 400 ''Invalid patient data''), s)
         else
           let newPatient = \<lparr>patientId = uuid, name = nm, age = ag,
                 medicalHistory = nullish mh (JArr []), currentTreatment = ct,
                 assignedDoctor = ad, reports = []\<rparr>;
               s1 = s\<lparr>patients := (patients s)(JStr (patientId newPatient) \<mapsto> newPatient)\<rparr>;
               s2 = logAction ns timestamp ad
                      (''Added patient record: '' @ patientId newPatient) s1
           in (Inr newPatient, s2))"

text \<open>\<^verbatim>\<open>app.get('/patients/:patientId')\<close>\<close>

definition getPatient :: "string \<Rightarrow> state \<Rightarrow> error + patient" where
  "getPatient pid s =
     (case patients s (JStr pid) of
        Some p \<Rightarrow> Inr p
      | None \<Rightarrow> Inl (Error 404 ''Patient not found''))"

text \<open>\<^verbatim>\<open>app.put('/patients/:patientId')\<close>\<close>

definition updatePatient ::
  "(real \<Rightarrow> string) \<Rightarrow> string \<Rightarrow> string \<Rightarrow> jvalue \<Rightarrow> jvalue \<Rightarrow> jvalue \<Rightarrow> jvalue \<Rightarrow> jvalue \<Rightarrow> state
     \<Rightarrow> (error + patient) \<times> state" where
  "updatePatient ns timestamp pid nm ag mh ct ad s =
     (let patientInput = \<lparr>dtoPatientId = pid, dtoName = nm, dtoAge = ag,
            dtoMedicalHistory = mh, dtoCurrentTreatment = ct, dtoAssignedDoctor = ad\<rparr>
      in if \<not> validatePatientInput patientInput
         then (Inl (Error 400 ''Invalid patient data''), s)
         else
           (case patients s (JStr pid) of
              Some p \<Rightarrow>
                let p1 = p\<lparr>name := nm\<rparr>;
                    p2 = p1\<lparr>age := ag\<rparr>;
                    p3 = p2\<lparr>medicalHistory := mh\<rparr>;
                    p4 = p3\<lparr>currentTreatment := ct\<rparr>;
                    p5 = p4\<lparr>assignedDoctor := ad\<rparr>;
                    s1 = s\<lparr>patients := (patients s)(JStr pid \<mapsto> p5)\<rparr>;
                    s2 = logAction ns timestamp ad (''Updated patient record: '' @ pid) s1
                in (Inr p5, s2)
            | None \<Rightarrow> (Inl (Error 404 ''Patient not found''), s)))"

section \<open>Reports of a patient\<close>

text \<open>\<^verbatim>\<open>app.put('/patients/:patientId/reports')\<close>\<close>

definition addReport ::
  "(real \<Rightarrow> string) \<Rightarrow> string \<Rightarrow> string \<Rightarrow> jvalue \<Rightarrow> state \<Rightarrow> (error + jvalue list) \<times> state" where
  "addReport ns timestamp pid report s =
     (case patients s (JStr pid) of
        Some p \<Rightarrow>
          let p1 = p\<lparr>reports := reports p @ [report]\<rparr>;
              s1 = s\<lparr>patients := (patients s)(JStr pid \<mapsto> p1)\<rparr>;
              s2 = logAction ns timestamp (assignedDoctor p1)
                     (''Added report for patient: '' @ pid) s1
          in (Inr (reports p1), s2)
      | None \<Rightarrow> (Inl (Error 404 ''Patient not found''), s))"

text \<open>\<^verbatim>\<open>app.get('/patients/:patientId/reports')\<close>\<close>

definition listReports :: "string \<Rightarrow> state \<Rightarrow> error + jvalue list" where
  "listReports pid s =
     (case patients s (JStr pid) of
        Some p \<Rightarrow> Inr (reports p)
      | None \<Rightarrow> Inl (Error 404 ''Patient not found''))"

text \<open>
  \<^verbatim>\<open>Number.parseInt(reportId)\<close> with no radix: leading white space is dropped, then an
  optional sign, then \<^verbatim>\<open>0x\<close> or \<^verbatim>\<open>0X\<close> selects radix 16; the longest prefix of digits is
  read and what follows is ignored. \<open>None\<close> is NaN. The result is the integer read; the
  double nearest to it compares with an array length as the integer does. Characters
  are the code units below 256.
\<close>

definition isWhiteSpace :: "char \<Rightarrow> bool" where
  "isWhiteSpace c = (of_char c \<in> {9, 10, 11, 12, 13, 32, 160 :: nat})"

definition digitValue :: "nat \<Rightarrow> char \<Rightarrow> nat option" where
  "digitValue R c =
     (let n = (of_char c :: nat);
          v = (if 48 \<le> n \<and> n \<le> 57 then n - 48
               else if 97 \<le> n \<and> n \<le> 122 then n - 87
               else if 65 \<le> n \<and> n \<le> 90 then n - 55
               else R)
      in if v < R then Some v else None)"

fun digitsValue :: "nat \<Rightarrow> nat \<Rightarrow> string \<Rightarrow> nat" where
  "digitsValue R acc [] = acc"
| "digitsValue R acc (c # cs) =
     (case digitValue R c of
        Some v \<Rightarrow> digitsValue R (acc * R + v) cs
      | None \<Rightarrow> acc)"

definition parseInt :: "string \<Rightarrow> int option" where
  "parseInt inputString =
     (let S = dropWhile isWhiteSpace inputString;
          sign = (if S \<noteq> [] \<and> hd S = CHR ''-'' then - 1 else (1 :: int));
          S1 = (if S \<noteq> [] \<and> (hd S = CHR ''+'' \<or> hd S = CHR ''-'') then tl S else S);
          hex = (take 2 S1 = ''0x'' \<or> take 2 S1 = ''0X'');
          R = (if hex then 16 else 10);
          S2 = (if hex then drop 2 S1 else S1)
      in if S2 = [] \<or> digitValue R (hd S2) = None then None
         else Some (sign * int (digitsValue R 0 S2)))"

text \<open>The decimal text of an index, as a client writes it into the path.\<close>

definition digitChar :: "nat \<Rightarrow> char" where
  "digitChar d = char_of (48 + d)"

fun decimal :: "nat \<Rightarrow> string" where
  "decimal n = (if n < 10 then [digitChar n] else decimal (n div 10) @ [digitChar (n mod 10)])"

text \<open>\<^verbatim>\<open>xs.splice(i, 1)\<close> for \<open>0 \<le> i < length xs\<close>.\<close>

definition splice1 :: "nat \<Rightarrow> 'a list \<Rightarrow> 'a list" where
  "splice1 i xs = take i xs @ drop (Suc i) xs"

text \<open>\<^verbatim>\<open>app.delete('/patients/:patientId/reports/:reportId')\<close>\<close>

definition deleteReport ::
  "(real \<Rightarrow> string) \<Rightarrow> string \<Rightarrow> string \<Rightarrow> string \<Rightarrow> state \<Rightarrow> (error + string) \<times> state" where
  "deleteReport ns timestamp pid reportId s =
     (case patients s (JStr pid) of
        Some p \<Rightarrow>
          (case parseInt reportId of
             Some reportIndex \<Rightarrow>
               if reportIndex \<ge> 0 \<and> reportIndex < int (length (reports p)) then
                 let p1 = p\<lparr>reports := splice1 (nat reportIndex) (reports p)\<rparr>;
                     s1 = s\<lparr>patients := (patients s)(JStr pid \<mapsto> p1)\<rparr>;
                     s2 = logAction ns timestamp (assignedDoctor p1)
                            (''Deleted report for patient: '' @ pid) s1
                 in (Inr ''Report deleted successfully'', s2)
               else (Inl (Error 404 ''Report not found''), s)
           | None \<Rightarrow> (Inl (Error 404 ''Report not found''), s))
      | None \<Rightarrow> (Inl (Error 404 ''Patient not found''), s))"

section \<open>The one memory behind the three stores\<close>

text \<open>
  Both source files create \<^verbatim>\<open>doctors\<close>, \<^verbatim>\<open>patients\<close> and \<^verbatim>\<open>auditLogs\<close> as
  \<^verbatim>\<open>StableBTreeMap(100)\<close> (index.ts lines 8 to 10, backup.ts lines 10 to 12): the three
  names are handles on one stable memory, number 100. What is inserted through one is
  found, listed and removed through the others. The sections above keep the three
  stores apart, as the comments on those lines declare them; this section is the memory
  as it is created, for what depends on it: a look-up through one handle that finds a
  record of another kind, the keys \<^verbatim>\<open>keys()\<close> lists, and what \<^verbatim>\<open>remove\<close> removes.

  An entry is what the handlers insert: an object (a doctor or a patient record, its
  fields in the order of the object literal) or the text of an audit entry. A field that
  holds \<^verbatim>\<open>undefined\<close> reads as an absent one.
\<close>

datatype entry = Obj "(string \<times> jvalue) list" | Str string

type_synonym memory = "jvalue \<rightharpoonup> entry"

definition emptyMemory :: memory where
  "emptyMemory = Map.empty"

text \<open>\<^verbatim>\<open>if (x)\<close> and \<^verbatim>\<open>!x\<close> on what \<^verbatim>\<open>get\<close> returned.\<close>

fun present :: "entry option \<Rightarrow> bool" where
  "present None = False"
| "present (Some (Obj kvs)) = True"
| "present (Some (Str s)) = (s \<noteq> [])"

text \<open>
  \<^verbatim>\<open>x.f\<close> for the fields the handlers read (\<^verbatim>\<open>doctorId\<close>, \<^verbatim>\<open>role\<close>, \<^verbatim>\<open>patientId\<close>,
  \<^verbatim>\<open>name\<close>, \<^verbatim>\<open>currentTreatment\<close>, \<^verbatim>\<open>assignedDoctor\<close>, \<^verbatim>\<open>reports\<close>): a text has none of
  them.
\<close>

fun fieldOf :: "string \<Rightarrow> entry \<Rightarrow> jvalue" where
  "fieldOf f (Obj kvs) = (case map_of kvs f of Some v \<Rightarrow> v | None \<Rightarrow> JUndefined)"
| "fieldOf f (Str s) = JUndefined"

text \<open>
  \<^verbatim>\<open>x.f = v\<close>: an object gets the field, in place when it has it and at the end when it
  has not. The source is module code, which is strict: on a text the assignment throws
  a TypeError.
\<close>

fun setField :: "string \<Rightarrow> jvalue \<Rightarrow> (string \<times> jvalue) list \<Rightarrow> (string \<times> jvalue) list" where
  "setField f v [] = [(f, v)]"
| "setField f v ((k, w) # kvs) = (if k = f then (f, v) # kvs else (k, w) # setField f v kvs)"

fun assignField :: "string \<Rightarrow> jvalue \<Rightarrow> entry \<Rightarrow> entry option" where
  "assignField f v (Obj kvs) = Some (Obj (setField f v kvs))"
| "assignField f v (Str s) = None"

text \<open>
  What a handler's \<^verbatim>\<open>try\<close> block can throw; the \<^verbatim>\<open>catch\<close> block answers status 500 with
  the error's message, which is \<open>message\<close> of it.
\<close>

datatype thrown = NotAPrincipal jvalue | CannotConvert | CannotAssign | NoToText

text \<open>
  ToString as a template literal applies it, \<open>None\<close> when it throws: an object parsed
  from JSON that has a field \<^verbatim>\<open>toString\<close> has no callable \<^verbatim>\<open>toString\<close> and
  \<^verbatim>\<open>Object.prototype.valueOf\<close> returns the object itself, so the conversion throws a
  TypeError; every other object is \<^verbatim>\<open>[object Object]\<close>; an array joins the texts of its
  elements and throws when one of them does.
\<close>

fun toStringJ :: "(real \<Rightarrow> string) \<Rightarrow> jvalue \<Rightarrow> string option" where
  "toStringJ ns JUndefined = Some ''undefined''"
| "toStringJ ns JNull = Some ''null''"
| "toStringJ ns (JBool b) = Some (if b then ''true'' else ''false'')"
| "toStringJ ns (JNum n) = Some (ns n)"
| "toStringJ ns (JStr s) = Some s"
| "toStringJ ns (JArr xs) =
     map_option (intersperse '','')
       (those (map (\<lambda>x. if x = JUndefined \<or> x = JNull then Some [] else toStringJ ns x) xs))"
| "toStringJ ns (JObj kvs) =
     (if ''toString'' \<in> set (map fst kvs) then None else Some ''[object Object]'')"

text \<open>\<^verbatim>\<open>logAction\<close> of index.ts, on the memory.\<close>

definition logActionMem ::
  "(real \<Rightarrow> string) \<Rightarrow> string \<Rightarrow> jvalue \<Rightarrow> string \<Rightarrow> memory \<Rightarrow> memory option" where
  "logActionMem ns timestamp userId action m =
     (case toStringJ ns userId of
        None \<Rightarrow> None
      | Some u \<Rightarrow> Some (m(JStr timestamp \<mapsto> Str (u @ '' - '' @ action))))"

text \<open>\<^verbatim>\<open>app.post('/doctors')\<close> and \<^verbatim>\<open>app.post('/patients')\<close> of index.ts, on the memory.\<close>

definition postDoctors ::
  "(thrown \<Rightarrow> string) \<Rightarrow> (real \<Rightarrow> string) \<Rightarrow> string \<Rightarrow> string \<Rightarrow> jvalue \<Rightarrow> jvalue \<Rightarrow> jvalue \<Rightarrow> memory
     \<Rightarrow> (error + entry) \<times> memory" where
  "postDoctors message ns timestamp uuid nm rl dept m =
     (if \<not> truthy nm \<or> \<not> truthy rl \<or> \<not> truthy dept then (Inl (Error 400 ''Invalid input''), m)
      else
        let newDoctor = Obj [(''doctorId'', JStr uuid), (''name'', nm), (''role'', rl),
              (''department'', dept)];
            m1 = m(JStr uuid \<mapsto> newDoctor)
        in case logActionMem ns timestamp (JStr uuid) ''Added new doctor'' m1 of
             Some m2 \<Rightarrow> (Inr newDoctor, m2)
           | None \<Rightarrow> (Inl (Error 500 (message CannotConvert)), m1))"

definition postPatients ::
  "(thrown \<Rightarrow> string) \<Rightarrow> (real \<Rightarrow> string) \<Rightarrow> string \<Rightarrow> string \<Rightarrow> jvalue \<Rightarrow> jvalue \<Rightarrow> jvalue \<Rightarrow> jvalue
     \<Rightarrow> jvalue \<Rightarrow> memory \<Rightarrow> (error + entry) \<times> memory" where
  "postPatients message ns timestamp uuid nm ag mh ct ad m =
     (let patientInput = \<lparr>dtoPatientId = uuid, dtoName = nm, dtoAge = ag,
            dtoMedicalHistory = mh, dtoCurrentTreatment = ct, dtoAssignedDoctor = ad\<rparr>
      in if \<not> validatePatientInput patientInput
         then (Inl (Error 400 ''Invalid patient data''), m)
         else
           let newPatient = Obj [(''patientId'', JStr uuid), (''name'', nm), (''age'', ag),
                 (''medicalHistory'', nullish mh (JArr [])), (''currentTreatment'', ct),
                 (''assignedDoctor'', ad), (''reports'', JArr [])];
               m1 = m(JStr uuid \<mapsto> newPatient)
           in case logActionMem ns timestamp ad (''Added patient record: '' @ uuid) m1 of
                Some m2 \<Rightarrow> (Inr newPatient, m2)
              | None \<Rightarrow> (Inl (Error 500 (message CannotConvert)), m1))"

text \<open>
  \<^verbatim>\<open>patients.get(patientId)\<close> and the answer to it, as \<^verbatim>\<open>app.get('/patients/:patientId')\<close>
  of index.ts and \<^verbatim>\<open>app.get('/viewPatient/:patientId')\<close> of backup.ts give it.
\<close>

definition getPatientMem :: "string \<Rightarrow> memory \<Rightarrow> error + entry" where
  "getPatientMem pid m =
     (case m (JStr pid) of
        None \<Rightarrow> Inl (Error 404 ''Patient not found'')
      | Some patient \<Rightarrow>
          if present (Some patient) then Inr patient else Inl (Error 404 ''Patient not found''))"

text \<open>
  \<^verbatim>\<open>app.put('/assignDoctor')\<close> of index.ts. Both identifiers are fields of the body, and
  both look-ups read the one memory.
\<close>

definition assignDoctor ::
  "(thrown \<Rightarrow> string) \<Rightarrow> (real \<Rightarrow> string) \<Rightarrow> string \<Rightarrow> jvalue \<Rightarrow> jvalue \<Rightarrow> memory
     \<Rightarrow> (error + string) \<times> memory" where
  "assignDoctor message ns timestamp pid did m =
     (case (m pid, m did) of
        (Some patient, Some doctor) \<Rightarrow>
          if \<not> present (Some patient) \<or> \<not> present (Some doctor)
          then (Inl (Error 404 ''Patient or Doctor not found''), m)
          else
            (case assignField ''assignedDoctor'' (fieldOf ''doctorId'' doctor) patient of
               None \<Rightarrow> (Inl (Error 500 (message CannotAssign)), m)
             | Some patient1 \<Rightarrow>
                 let m1 = m(pid \<mapsto> patient1) in
                 (case toStringJ ns pid of
                    None \<Rightarrow> (Inl (Error 500 (message CannotConvert)), m1)
                  | Some pidText \<Rightarrow>
                      (case logActionMem ns timestamp (fieldOf ''doctorId'' doctor)
                              (''Assigned to patient: '' @ pidText) m1 of
                         None \<Rightarrow> (Inl (Error 500 (message CannotConvert)), m1)
                       | Some m2 \<Rightarrow> (Inr ''Doctor assigned successfully'', m2))))
      | _ \<Rightarrow> (Inl (Error 404 ''Patient or Doctor not found''), m))"

text \<open>
  \<^verbatim>\<open>app.get('/generateReports')\<close> of index.ts. \<open>keys\<close> is \<^verbatim>\<open>StableBTreeMap.keys\<close>, the keys
  of the memory in the memory's order; \<open>forEachKey\<close> is the body of the \<^verbatim>\<open>forEach\<close>,
  pushing onto \<^verbatim>\<open>reportData\<close>.
\<close>

record summary =
  sumPatientId :: jvalue
  sumName :: jvalue
  sumCurrentTreatment :: jvalue
  sumAssignedDoctor :: jvalue
  sumReports :: jvalue

definition project :: "entry \<Rightarrow> summary" where
  "project patient = \<lparr>sumPatientId = fieldOf ''patientId'' patient,
     sumName = fieldOf ''name'' patient,
     sumCurrentTreatment = fieldOf ''currentTreatment'' patient,
     sumAssignedDoctor = fieldOf ''assignedDoctor'' patient,
     sumReports = fieldOf ''reports'' patient\<rparr>"

fun forEachKey :: "memory \<Rightarrow> jvalue list \<Rightarrow> summary list \<Rightarrow> summary list" where
  "forEachKey m [] reportData = reportData"
| "forEachKey m (k # ks) reportData =
     (case m k of
        Some patient \<Rightarrow>
          if present (Some patient) then forEachKey m ks (reportData @ [project patient])
          else forEachKey m ks reportData
      | None \<Rightarrow> forEachKey m ks reportData)"

definition generateReports ::
  "(memory \<Rightarrow> jvalue list) \<Rightarrow> (thrown \<Rightarrow> string) \<Rightarrow> (real \<Rightarrow> string) \<Rightarrow> string \<Rightarrow> memory
     \<Rightarrow> (error + summary list) \<times> memory" where
  "generateReports keys message ns timestamp m =
     (let reportData = forEachKey m (keys m) [] in
      case logActionMem ns timestamp (JStr ''admin'') ''Generated patient reports'' m of
        Some m1 \<Rightarrow> (Inr reportData, m1)
      | None \<Rightarrow> (Inl (Error 500 (message CannotConvert)), m))"

text \<open>The keys of a memory among \<open>order\<close>, a list of keys in the memory's order.\<close>

definition keysInOrder :: "jvalue list \<Rightarrow> memory \<Rightarrow> jvalue list" where
  "keysInOrder order m = filter (\<lambda>k. m k \<noteq> None) order"

section \<open>The variant that keys the doctors by principal\<close>

text \<open>
  \<^verbatim>\<open>src/backup.ts\<close> stores a doctor under \<^verbatim>\<open>Principal.fromText(doctorId)\<close>. A principal
  is written here as the object under which the store's serialization writes it, so it
  differs from every text key; \<open>toText\<close> is \<^verbatim>\<open>x.toText()\<close>, which throws on anything
  else. \<open>fromText\<close> is \<^verbatim>\<open>Principal.fromText\<close>: the text of the principal, \<open>None\<close> when it
  throws.
\<close>

definition principalValue :: "string \<Rightarrow> jvalue" where
  "principalValue t = JObj [(''__principal__'', JStr t)]"

fun toText :: "jvalue \<Rightarrow> string option" where
  "toText (JObj [(k, JStr t)]) = (if k = ''__principal__'' then Some t else None)"
| "toText v = None"

text \<open>\<^verbatim>\<open>logAction\<close> of backup.ts: the actor is a principal.\<close>

definition logActionPrincipal :: "string \<Rightarrow> jvalue \<Rightarrow> string \<Rightarrow> memory \<Rightarrow> memory option" where
  "logActionPrincipal timestamp user action m =
     (case toText user of
        None \<Rightarrow> None
      | Some userText \<Rightarrow> Some (m(JStr timestamp \<mapsto> Str (userText @ '' - '' @ action))))"

text \<open>\<^verbatim>\<open>app.post('/addDoctor')\<close> of backup.ts\<close>

definition addDoctor ::
  "(jvalue \<Rightarrow> string option) \<Rightarrow> (thrown \<Rightarrow> string) \<Rightarrow> string \<Rightarrow> jvalue \<Rightarrow> jvalue \<Rightarrow> jvalue \<Rightarrow> jvalue
     \<Rightarrow> memory \<Rightarrow> (error + string) \<times> memory" where
  "addDoctor fromText message timestamp did nm rl dept m =
     (if \<not> truthy did \<or> \<not> truthy nm \<or> \<not> truthy rl \<or> \<not> truthy dept
      then (Inl (Error 400 ''Invalid input''), m)
      else
        (case fromText did of
           None \<Rightarrow> (Inl (Error 500 (message (NotAPrincipal did))), m)
         | Some p \<Rightarrow>
             let newDoctor = Obj [(''doctorId'', principalValue p), (''name'', nm), (''role'', rl),
                   (''department'', dept)];
                 m1 = m(principalValue p \<mapsto> newDoctor)
             in case logActionPrincipal timestamp (principalValue p) ''Added new doctor'' m1 of
                  Some m2 \<Rightarrow> (Inr ''Doctor added successfully'', m2)
                | None \<Rightarrow> (Inl (Error 500 (message NoToText)), m1)))"

text \<open>
  \<^verbatim>\<open>app.post('/addPatient')\<close> of backup.ts, the first of the two handlers registered on
  that path (it answers every request, so the second never runs). \<^verbatim>\<open>patientId\<close> is a
  field of the body here.
\<close>

definition addPatient ::
  "(jvalue \<Rightarrow> string option) \<Rightarrow> (thrown \<Rightarrow> string) \<Rightarrow> (real \<Rightarrow> string) \<Rightarrow> string \<Rightarrow> jvalue \<Rightarrow> jvalue
     \<Rightarrow> jvalue \<Rightarrow> jvalue \<Rightarrow> jvalue \<Rightarrow> jvalue \<Rightarrow> memory \<Rightarrow> (error + string) \<times> memory" where
  "addPatient fromText message ns timestamp pid nm ag mh ct ad m =
     (if \<not> truthy pid \<or> \<not> truthy nm \<or> \<not> truthy ag \<or> \<not> truthy ad
      then (Inl (Error 400 ''Invalid patient data''), m)
      else
        (case fromText ad of
           None \<Rightarrow> (Inl (Error 500 (message (NotAPrincipal ad))), m)
         | Some p \<Rightarrow>
             let newPatient = Obj [(''patientId'', pid), (''name'', nm), (''age'', ag),
                   (''medicalHistory'', mh), (''currentTreatment'', ct),
                   (''assignedDoctor'', principalValue p), (''reports'', JArr [])];
                 m1 = m(pid \<mapsto> newPatient)
             in (case toStringJ ns pid of
                   None \<Rightarrow> (Inl (Error 500 (message CannotConvert)), m1)
                 | Some pidText \<Rightarrow>
                     (case logActionPrincipal timestamp (principalValue p)
                             (''Added patient record: '' @ pidText) m1 of
                        Some m2 \<Rightarrow> (Inr ''Patient added successfully'', m2)
                      | None \<Rightarrow> (Inl (Error 500 (message NoToText)), m1)))))"

text \<open>\<^verbatim>\<open>app.delete('/deletePatient/:patientId/:doctorId')\<close> of backup.ts\<close>

definition deletePatient ::
  "(jvalue \<Rightarrow> string option) \<Rightarrow> (thrown \<Rightarrow> string) \<Rightarrow> string \<Rightarrow> string \<Rightarrow> string \<Rightarrow> memory
     \<Rightarrow> (error + string) \<times> memory" where
  "deletePatient fromText message timestamp pid did m =
     (case fromText (JStr did) of
        None \<Rightarrow> (Inl (Error 500 (message (NotAPrincipal (JStr did)))), m)
      | Some p \<Rightarrow>
          (case m (principalValue p) of
             None \<Rightarrow> (Inl (Error 404 ''Doctor not found''), m)
           | Some doctor \<Rightarrow>
               if \<not> present (Some doctor) then (Inl (Error 404 ''Doctor not found''), m)
               else if fieldOf ''role'' doctor = JStr ''FullAccess'' then
                 let m1 = m(JStr pid := None) in
                 (case logActionPrincipal timestamp (fieldOf ''doctorId'' doctor)
                         (''Deleted patient record: '' @ pid) m1 of
                    Some m2 \<Rightarrow> (Inr ''Patient deleted successfully'', m2)
                  | None \<Rightarrow> (Inl (Error 500 (message NoToText)), m1))
               else (Inl (Error 403 ''Doctor does not have permission to delete patient''), m)))"

text \<open>
  \<^verbatim>\<open>Principal.fromText\<close> accepts a text only when it is the text \<^verbatim>\<open>toText\<close> gives for the
  principal it decodes: characters \<^verbatim>\<open>a\<close> to \<^verbatim>\<open>z\<close> and \<^verbatim>\<open>2\<close> to \<^verbatim>\<open>7\<close> in groups of five
  joined by \<^verbatim>\<open>-\<close>, the last group of one to five. That shape is \<open>principalShape\<close>;
  whether the checksum the text carries is right is the parameter \<open>checksumOk\<close>.
\<close>

definition base32Char :: "char \<Rightarrow> bool" where
  "base32Char c =
     (let n = (of_char c :: nat) in (97 \<le> n \<and> n \<le> 122) \<or> (50 \<le> n \<and> n \<le> 55))"

fun groupsOfFive :: "string \<Rightarrow> nat \<Rightarrow> bool" where
  "groupsOfFive [] n = (1 \<le> n \<and> n \<le> 5)"
| "groupsOfFive (c # cs) n =
     (if c = CHR ''-'' then n = 5 \<and> groupsOfFive cs 0
      else base32Char c \<and> n < 5 \<and> groupsOfFive cs (Suc n))"

definition principalShape :: "string \<Rightarrow> bool" where
  "principalShape t = groupsOfFive t 0"

definition principalFromText :: "(string \<Rightarrow> bool) \<Rightarrow> jvalue \<Rightarrow> string option" where
  "principalFromText checksumOk v =
     (case v of
        JStr t \<Rightarrow> if principalShape t \<and> checksumOk t then Some t else None
      | _ \<Rightarrow> None)"

section \<open>A small hospital, for the examples\<close>

definition doc1 :: doctor where
  "doc1 = \<lparr>doctorId = ''d1'', doctorName = JStr ''Dr. A'', role = JStr ''FullAccess'',
     department = JStr ''Cardio''\<rparr>"

definition doc2 :: doctor where
  "doc2 = \<lparr>doctorId = ''d2'', doctorName = JStr ''Dr. B'', role = JStr ''ReadOnly'',
     department = JStr ''Cardio''\<rparr>"

definition pat1 :: patient where
  "pat1 = \<lparr>patientId = ''p1'', name = JStr ''P1'', age = JNum 40, medicalHistory = JArr [],
     currentTreatment = JUndefined, assignedDoctor = JStr ''d1'',
     reports = [JStr ''x-ray clear'', JStr ''blood ok'']\<rparr>"

definition state1 :: state where
  "state1 = \<lparr>doctors = [JStr ''d1'' \<mapsto> doc1, JStr ''d2'' \<mapsto> doc2],
     patients = [JStr ''p1'' \<mapsto> pat1], auditLogs = Map.empty\<rparr>"

definition pat2 :: patient where
  "pat2 = \<lparr>patientId = ''p2'', name = JStr ''P2'', age = JNum 7,
     medicalHistory = JArr [JStr ''asthma''], currentTreatment = JStr ''inhaler'',
     assignedDoctor = JStr ''d2'', reports = []\<rparr>"

definition state2 :: state where
  "state2 = \<lparr>doctors = [JStr ''d1'' \<mapsto> doc1, JStr ''d2'' \<mapsto> doc2],
     patients = [JStr ''p1'' \<mapsto> pat1, JStr ''p2'' \<mapsto> pat2], auditLogs = Map.empty\<rparr>"

text \<open>The text of a number is not needed where every logged actor is a string.\<close>

definition noNumbers :: "real \<Rightarrow> string" where
  "noNumbers r = []"

text \<open>
  Two requests served in the same instant: \<^verbatim>\<open>new Date().toISOString()\<close> gives both the
  same text.
\<close>

definition sameInstant :: string where
  "sameInstant = ''2024-05-01T10:00:00.000Z''"

definition afterFirst :: state where
  "afterFirst = snd (createDoctor noNumbers sameInstant ''d1'' (JStr ''Dr. A'')
     (JStr ''FullAccess'') (JStr ''Cardio'') emptyState)"

definition afterSecond :: state where
  "afterSecond = snd (createDoctor noNumbers sameInstant ''d2'' (JStr ''Dr. B'')
     (JStr ''ReadOnly'') (JStr ''Cardio'') afterFirst)"

text \<open>
  Texts of principals for the examples: of the principal with no bytes, of the
  anonymous principal and of a canister.
\<close>

definition knownChecksum :: "string \<Rightarrow> bool" where
  "knownChecksum t = (t \<in> set [''aaaaa-aa'', ''2vxsx-fae'', ''ryjl3-tyaaa-aaaaa-aaaba-cai''])"

text \<open>The messages of the examples; no statement depends on their texts.\<close>

fun exampleMessage :: "thrown \<Rightarrow> string" where
  "exampleMessage (NotAPrincipal v) = ''not the text of a principal''"
| "exampleMessage CannotConvert = ''cannot convert object to primitive value''"
| "exampleMessage CannotAssign = ''cannot create property''"
| "exampleMessage NoToText = ''not a function''"

text \<open>
  On the one memory: a patient and no doctor, and the assignment of that patient's
  identifier as the doctor; a doctor, and the summary generated in the instant of the
  doctor's creation (in the memory's order the timestamp, which starts with a digit,
  comes before \<^verbatim>\<open>d1\<close>).
\<close>

definition earlier :: string where
  "earlier = ''2024-05-01T09:00:00.000Z''"

definition onePatient :: memory where
  "onePatient = snd (postPatients exampleMessage noNumbers earlier ''p1'' (JStr ''P1'') (JNum 40)
     JUndefined JUndefined (JStr ''d1'') emptyMemory)"

definition patientAsDoctor :: "(error + string) \<times> memory" where
  "patientAsDoctor =
     assignDoctor exampleMessage noNumbers sameInstant (JStr ''p1'') (JStr ''p1'') onePatient"

definition firstDoctor :: memory where
  "firstDoctor = snd (postDoctors exampleMessage noNumbers sameInstant ''d1'' (JStr ''Dr. A'')
     (JStr ''FullAccess'') (JStr ''Cardio'') emptyMemory)"

definition summaryInInstant :: "(error + summary list) \<times> memory" where
  "summaryInInstant =
     generateReports (keysInOrder [JStr sameInstant, JStr ''d1'']) exampleMessage noNumbers
       sameInstant firstDoctor"

text \<open>
  The memory of backup.ts after two doctors and a patient were added, and the entry of
  that patient. A doctor identifier as index.ts generates it, and the doctor created
  under it.
\<close>

definition ledger :: string where
  "ledger = ''ryjl3-tyaaa-aaaaa-aaaba-cai''"

definition staff :: memory where
  "staff = snd (addDoctor (principalFromText knownChecksum) exampleMessage sameInstant
     (JStr ''2vxsx-fae'') (JStr ''Dr. B'') (JStr ''ReadOnly'') (JStr ''Cardio'')
     (snd (addDoctor (principalFromText knownChecksum) exampleMessage earlier
       (JStr ''aaaaa-aa'') (JStr ''Dr. A'') (JStr ''FullAccess'') (JStr ''Cardio'') emptyMemory)))"

definition midday :: string where
  "midday = ''2024-05-01T12:00:00.000Z''"

definition ward :: memory where
  "ward = snd (addPatient (principalFromText knownChecksum) exampleMessage noNumbers midday
     (JStr ''p1'') (JStr ''P1'') (JNum 40) (JArr []) (JStr ''rest'') (JStr ''aaaaa-aa'') staff)"

definition patientP1 :: entry where
  "patientP1 = Obj [(''patientId'', JStr ''p1''), (''name'', JStr ''P1''), (''age'', JNum 40),
     (''medicalHistory'', JArr []), (''currentTreatment'', JStr ''rest''),
     (''assignedDoctor'', principalValue ''aaaaa-aa''), (''reports'', JArr [])]"

definition later :: string where
  "later = ''2024-05-01T11:00:00.000Z''"

definition aUuid :: string where
  "aUuid = ''110ec58a-a0f2-4ac4-8393-c866d813b8d1''"

definition intern :: memory where
  "intern = snd (postDoctors exampleMessage noNumbers sameInstant aUuid (JStr ''Dr. C'')
     (JStr ''Intern'') (JStr ''ER'') emptyMemory)"

section \<open>What logging changes\<close>

lemma doctors_logAction [simp]: "doctors (logAction ns ts u a s) = doctors s"
  by (simp add: logAction_def)

lemma patients_logAction [simp]: "patients (logAction ns ts u a s) = patients s"
  by (simp add: logAction_def)

lemma auditLogs_logAction [simp]:
  "auditLogs (logAction ns ts u a s) = (auditLogs s)(ts \<mapsto> js_toString ns u @ '' - '' @ a)"
  by (simp add: logAction_def)

section \<open>Doctors: create, then get\<close>

text \<open>
  Claim C6. When \<open>name\<close>, \<open>role\<close> and \<open>department\<close> are all present and non-empty (truthy:
  for a string, not empty), \<open>createDoctor\<close> succeeds and returns the record made of the
  generated identifier and the three values, the other doctors and the patients are as
  before, and \<open>getDoctor\<close> on the returned identifier gives a record equal to the
  returned one. When one of the three is missing or empty, \<open>createDoctor\<close> fails with
  status 400 (ValidationError) and the state is unchanged.
\<close>

theorem createDoctor_roundtrip:
  "(truthy nm \<and> truthy rl \<and> truthy dept \<longrightarrow>
      (\<exists>s'. createDoctor ns ts uuid nm rl dept s =
              (Inr \<lparr>doctorId = uuid, doctorName = nm, role = rl, department = dept\<rparr>, s') \<and>
            getDoctor uuid s' =
              Inr \<lparr>doctorId = uuid, doctorName = nm, role = rl, department = dept\<rparr> \<and>
            (\<forall>k. k \<noteq> JStr uuid \<longrightarrow> doctors s' k = doctors s k) \<and>
            patients s' = patients s)) \<and>
   (\<not> truthy nm \<or> \<not> truthy rl \<or> \<not> truthy dept \<longrightarrow>
      createDoctor ns ts uuid nm rl dept s = (Inl (Error 400 ''Invalid input''), s))"
  by (simp add: createDoctor_def getDoctor_def logAction_def Let_def)

theorem createDoctor_roundtrip_witness:
  "truthy (JStr ''Dr. A'') \<and> truthy (JStr ''FullAccess'') \<and> truthy (JStr ''Cardio'') \<and>
   fst (createDoctor noNumbers ''t1'' ''d1'' (JStr ''Dr. A'') (JStr ''FullAccess'')
          (JStr ''Cardio'') emptyState) = Inr doc1 \<and>
   getDoctor ''d1'' (snd (createDoctor noNumbers ''t1'' ''d1'' (JStr ''Dr. A'')
          (JStr ''FullAccess'') (JStr ''Cardio'') emptyState)) = Inr doc1 \<and>
   \<not> truthy JUndefined \<and>
   createDoctor noNumbers ''t1'' ''d1'' (JStr ''Dr. A'') JUndefined (JStr ''Cardio'') emptyState =
     (Inl (Error 400 ''Invalid input''), emptyState)"
  using
    createDoctor_roundtrip [of "JStr ''Dr. A''" "JStr ''FullAccess''" "JStr ''Cardio''"
      noNumbers "''t1''" "''d1''" emptyState]
    createDoctor_roundtrip [of "JStr ''Dr. A''" JUndefined "JStr ''Cardio''"
      noNumbers "''t1''" "''d1''" emptyState]
  by (auto simp: doc1_def)

section \<open>Validation of patient input\<close>

text \<open>
  Claim C2. \<open>createPatient\<close> fails with status 400 (ValidationError) exactly when the
  generated \<open>patientId\<close>, \<open>name\<close>, \<open>age\<close> or \<open>assignedDoctor\<close> is missing or falsy, and
  \<open>updatePatient\<close> fails with status 400 exactly when its \<open>patientId\<close>, \<open>name\<close>, \<open>age\<close> or
  \<open>assignedDoctor\<close> is; age 0 is rejected by both; the state is unchanged when the
  validation fails; and with the four values truthy \<open>createPatient\<close> succeeds whatever
  the doctor store holds, so \<open>assignedDoctor\<close> need not be a stored doctor.
\<close>

theorem validation_totality:
  "(fst (createPatient ns ts uuid nm ag mh ct ad s) = Inl (Error 400 ''Invalid patient data'')) =
     (uuid = [] \<or> \<not> truthy nm \<or> \<not> truthy ag \<or> \<not> truthy ad) \<and>
   (fst (updatePatient ns ts pid nm ag mh ct ad s) = Inl (Error 400 ''Invalid patient data'')) =
     (pid = [] \<or> \<not> truthy nm \<or> \<not> truthy ag \<or> \<not> truthy ad) \<and>
   (uuid = [] \<or> \<not> truthy nm \<or> \<not> truthy ag \<or> \<not> truthy ad \<longrightarrow>
      snd (createPatient ns ts uuid nm ag mh ct ad s) = s) \<and>
   (pid = [] \<or> \<not> truthy nm \<or> \<not> truthy ag \<or> \<not> truthy ad \<longrightarrow>
      snd (updatePatient ns ts pid nm ag mh ct ad s) = s) \<and>
   createPatient ns ts uuid nm (JNum 0) mh ct ad s = (Inl (Error 400 ''Invalid patient data''), s) \<and>
   updatePatient ns ts pid nm (JNum 0) mh ct ad s = (Inl (Error 400 ''Invalid patient data''), s) \<and>
   (uuid \<noteq> [] \<and> truthy nm \<and> truthy ag \<and> truthy ad \<longrightarrow>
      (\<exists>p s'. createPatient ns ts uuid nm ag mh ct ad s = (Inr p, s') \<and>
              assignedDoctor p = ad \<and> getPatient uuid s' = Inr p))"
  by (auto simp: createPatient_def updatePatient_def validatePatientInput_def getPatient_def
      Let_def split: option.splits)

theorem validation_totality_witness:
  "createPatient noNumbers ''t'' ''p2'' (JStr ''P2'') (JNum 0) JUndefined JUndefined (JStr ''d1'')
     state1 = (Inl (Error 400 ''Invalid patient data''), state1) \<and>
   createPatient noNumbers ''t'' ''p2'' JUndefined (JNum 7) JUndefined JUndefined (JStr ''d1'')
     state1 = (Inl (Error 400 ''Invalid patient data''), state1) \<and>
   updatePatient noNumbers ''t'' ''p1'' (JStr ''P1'') (JNum 41) JUndefined JUndefined (JStr [])
     state1 = (Inl (Error 400 ''Invalid patient data''), state1) \<and>
   doctors state1 (JStr ''nobody'') = None \<and>
   (\<exists>p s'. createPatient noNumbers ''t'' ''p2'' (JStr ''P2'') (JNum 7) JUndefined JUndefined
              (JStr ''nobody'') state1 = (Inr p, s') \<and>
      assignedDoctor p = JStr ''nobody'' \<and> getPatient ''p2'' s' = Inr p)"
proof -
  note v = validation_totality [where ns = noNumbers and ts = "''t''" and s = state1
      and mh = JUndefined and ct = JUndefined]
  have a: "createPatient noNumbers ''t'' ''p2'' (JStr ''P2'') (JNum 0) JUndefined JUndefined
      (JStr ''d1'') state1 = (Inl (Error 400 ''Invalid patient data''), state1)"
    using v [where uuid = "''p2''" and nm = "JStr ''P2''" and ad = "JStr ''d1''"] by simp
  have b: "createPatient noNumbers ''t'' ''p2'' JUndefined (JNum 7) JUndefined JUndefined
      (JStr ''d1'') state1 = (Inl (Error 400 ''Invalid patient data''), state1)"
    using v [where uuid = "''p2''" and nm = JUndefined and ag = "JNum 7" and ad = "JStr ''d1''"]
    by (simp add: prod_eq_iff)
  have c: "updatePatient noNumbers ''t'' ''p1'' (JStr ''P1'') (JNum 41) JUndefined JUndefined
      (JStr []) state1 = (Inl (Error 400 ''Invalid patient data''), state1)"
    using v [where pid = "''p1''" and nm = "JStr ''P1''" and ag = "JNum 41" and ad = "JStr []"]
    by (simp add: prod_eq_iff)
  have d: "doctors state1 (JStr ''nobody'') = None"
    by (simp add: state1_def)
  have e: "\<exists>p s'. createPatient noNumbers ''t'' ''p2'' (JStr ''P2'') (JNum 7) JUndefined
      JUndefined (JStr ''nobody'') state1 = (Inr p, s') \<and>
      assignedDoctor p = JStr ''nobody'' \<and> getPatient ''p2'' s' = Inr p"
    using v [where uuid = "''p2''" and nm = "JStr ''P2''" and ag = "JNum 7"
        and ad = "JStr ''nobody''"]
    by simp
  from a b c d e show ?thesis by blast
qed

section \<open>Reports: append, and removal by position\<close>

lemma splice1_length: "i < length xs \<Longrightarrow> length (splice1 i xs) = length xs - 1"
  by (simp add: splice1_def)

lemma splice1_before: "j < i \<Longrightarrow> i < length xs \<Longrightarrow> splice1 i xs ! j = xs ! j"
  by (simp add: splice1_def nth_append)

lemma splice1_after: "i \<le> j \<Longrightarrow> Suc j < length xs \<Longrightarrow> splice1 i xs ! j = xs ! Suc j"
  by (simp add: splice1_def nth_append min_def)

declare decimal.simps [simp del]

lemma of_char_digitChar: "d < 10 \<Longrightarrow> (of_char (digitChar d) :: nat) = 48 + d"
  by (simp add: digitChar_def)

lemma digitValue_digitChar: "d < 10 \<Longrightarrow> digitValue 10 (digitChar d) = Some d"
  by (simp add: digitValue_def of_char_digitChar Let_def)

lemma digitsValue_append:
  "\<forall>c \<in> set xs. digitValue R c \<noteq> None \<Longrightarrow>
     digitsValue R acc (xs @ ys) = digitsValue R (digitsValue R acc xs) ys"
  by (induction xs arbitrary: acc) auto

lemma decimal_digits: "\<forall>c \<in> set (decimal n). digitValue 10 c \<noteq> None"
proof (induction n rule: decimal.induct)
  case (1 n)
  show ?case
  proof (cases "n < 10")
    case True
    then show ?thesis by (simp add: decimal.simps [of n] digitValue_digitChar)
  next
    case False
    with 1 show ?thesis
      by (simp add: decimal.simps [of n] digitValue_digitChar)
  qed
qed

lemma digitsValue_decimal: "digitsValue 10 0 (decimal n) = n"
proof (induction n rule: decimal.induct)
  case (1 n)
  show ?case
  proof (cases "n < 10")
    case True
    then show ?thesis by (simp add: decimal.simps [of n] digitValue_digitChar)
  next
    case False
    with 1 have "digitsValue 10 0 (decimal (n div 10)) = n div 10" by simp
    with False show ?thesis
      by (simp add: decimal.simps [of n] digitsValue_append decimal_digits digitValue_digitChar)
  qed
qed

lemma decimal_not_Nil: "decimal n \<noteq> []"
  by (subst decimal.simps) simp

lemma hd_decimal_digit: "\<exists>d < 10. hd (decimal n) = digitChar d"
proof (induction n rule: decimal.induct)
  case (1 n)
  show ?case
  proof (cases "n < 10")
    case True
    then show ?thesis by (auto simp: decimal.simps [of n])
  next
    case False
    with 1 show ?thesis
      by (simp add: decimal.simps [of n] decimal_not_Nil)
  qed
qed

lemma digitChar_plain:
  assumes "d < 10"
  shows "\<not> isWhiteSpace (digitChar d)" "digitChar d \<noteq> CHR ''-''" "digitChar d \<noteq> CHR ''+''"
proof -
  have n: "(of_char (digitChar d) :: nat) = 48 + d"
    using assms by (rule of_char_digitChar)
  show "\<not> isWhiteSpace (digitChar d)"
    using assms n by (auto simp: isWhiteSpace_def)
  show "digitChar d \<noteq> CHR ''-''" "digitChar d \<noteq> CHR ''+''"
    using assms n by auto
qed

lemma digitValue_x: "digitValue 10 CHR ''x'' = None" "digitValue 10 CHR ''X'' = None"
  by (simp_all add: digitValue_def)

lemma decimal_no_prefix: "take 2 (decimal n) \<noteq> ''0x''" "take 2 (decimal n) \<noteq> ''0X''"
proof -
  have "CHR ''x'' \<notin> set (decimal n)" "CHR ''X'' \<notin> set (decimal n)"
    using decimal_digits [of n] digitValue_x by auto
  moreover have "set (take 2 (decimal n)) \<subseteq> set (decimal n)"
    by (rule set_take_subset)
  ultimately show "take 2 (decimal n) \<noteq> ''0x''" "take 2 (decimal n) \<noteq> ''0X''"
    by auto
qed

text \<open>\<^verbatim>\<open>Number.parseInt\<close> reads the decimal text of an index as that index.\<close>

lemma parseInt_decimal: "parseInt (decimal n) = Some (int n)"
proof -
  obtain c cs where d: "decimal n = c # cs"
    using decimal_not_Nil [of n] by (cases "decimal n") auto
  obtain k where k: "k < 10" "c = digitChar k"
    using hd_decimal_digit [of n] d by auto
  have w: "dropWhile isWhiteSpace (decimal n) = decimal n"
    using d k digitChar_plain(1) by simp
  have h: "hd (decimal n) \<noteq> CHR ''-''" "hd (decimal n) \<noteq> CHR ''+''"
    using d k digitChar_plain(2,3) by simp_all
  have v: "digitValue 10 (hd (decimal n)) \<noteq> None"
    using d k digitValue_digitChar by simp
  show ?thesis
    unfolding parseInt_def Let_def w
    using h v decimal_no_prefix [of n] decimal_not_Nil [of n]
    by (simp add: digitsValue_decimal)
qed

lemma parseInt_0: "parseInt ''0'' = Some 0"
  by (simp add: parseInt_def isWhiteSpace_def digitValue_def)

lemma parseInt_2: "parseInt ''2'' = Some 2"
  by (simp add: parseInt_def isWhiteSpace_def digitValue_def)

lemma parseInt_minus_1: "parseInt ''-1'' = Some (- 1)"
  by (simp add: parseInt_def isWhiteSpace_def digitValue_def)

lemma parseInt_no_digit: "parseInt ''first'' = None"
  by (simp add: parseInt_def isWhiteSpace_def digitValue_def)

text \<open>
  Claim C3. For a stored patient \<open>p\<close>: \<open>addReport\<close> returns and stores the reports of \<open>p\<close>
  with \<open>r\<close> appended, one element longer and ending with \<open>r\<close>; when the report
  identifier reads as an index \<open>i\<close> with \<open>0 \<le> i < length (reports p)\<close>, \<open>deleteReport\<close>
  succeeds, changes nothing of the patient record but \<open>reports\<close>, which is one shorter,
  agrees with the old sequence before \<open>i\<close> and holds the old element \<open>j + 1\<close> at every
  position \<open>j\<close> from \<open>i\<close> on; when the identifier reads as no number or as an index
  outside that range, \<open>deleteReport\<close> fails with status 404 (IndexOutOfRange) and the
  whole state is unchanged. In particular, for the decimal text of \<open>n\<close>: the element at
  position \<open>n\<close> is removed when \<open>n < length (reports p)\<close>, and the request fails with
  status 404 and changes nothing otherwise.
\<close>

theorem report_index_laws:
  assumes "patients s (JStr pid) = Some p"
  shows
    "(\<exists>s'. addReport ns ts pid r s = (Inr (reports p @ [r]), s') \<and>
           patients s' (JStr pid) = Some (p\<lparr>reports := reports p @ [r]\<rparr>) \<and>
           listReports pid s' = Inr (reports p @ [r]) \<and>
           last (reports p @ [r]) = r \<and>
           length (reports p @ [r]) = Suc (length (reports p))) \<and>
     (\<forall>i. parseInt rid = Some i \<and> 0 \<le> i \<and> i < int (length (reports p)) \<longrightarrow>
        (\<exists>s' rs'. deleteReport ns ts pid rid s = (Inr ''Report deleted successfully'', s') \<and>
           patients s' (JStr pid) = Some (p\<lparr>reports := rs'\<rparr>) \<and>
           listReports pid s' = Inr rs' \<and>
           length rs' = length (reports p) - 1 \<and>
           (\<forall>j. j < nat i \<longrightarrow> rs' ! j = reports p ! j) \<and>
           (\<forall>j. nat i \<le> j \<and> Suc j < length (reports p) \<longrightarrow> rs' ! j = reports p ! Suc j))) \<and>
     (parseInt rid = None \<or>
      (\<exists>i. parseInt rid = Some i \<and> (i < 0 \<or> int (length (reports p)) \<le> i)) \<longrightarrow>
        deleteReport ns ts pid rid s = (Inl (Error 404 ''Report not found''), s)) \<and>
     (\<forall>n. n < length (reports p) \<longrightarrow>
        (\<exists>s'. deleteReport ns ts pid (decimal n) s = (Inr ''Report deleted successfully'', s') \<and>
           listReports pid s' = Inr (take n (reports p) @ drop (Suc n) (reports p)))) \<and>
     (\<forall>n. length (reports p) \<le> n \<longrightarrow>
        deleteReport ns ts pid (decimal n) s = (Inl (Error 404 ''Report not found''), s))"
proof (intro conjI allI impI)
  show "\<exists>s'. addReport ns ts pid r s = (Inr (reports p @ [r]), s') \<and>
           patients s' (JStr pid) = Some (p\<lparr>reports := reports p @ [r]\<rparr>) \<and>
           listReports pid s' = Inr (reports p @ [r]) \<and>
           last (reports p @ [r]) = r \<and>
           length (reports p @ [r]) = Suc (length (reports p))"
    using assms by (simp add: addReport_def listReports_def Let_def)
next
  fix i
  assume i: "parseInt rid = Some i \<and> 0 \<le> i \<and> i < int (length (reports p))"
  then have n: "nat i < length (reports p)" by linarith
  let ?rs = "splice1 (nat i) (reports p)"
  let ?s' = "snd (deleteReport ns ts pid rid s)"
  have "deleteReport ns ts pid rid s = (Inr ''Report deleted successfully'', ?s')"
    using assms i by (simp add: deleteReport_def Let_def)
  moreover have "patients ?s' (JStr pid) = Some (p\<lparr>reports := ?rs\<rparr>)"
    using assms i by (simp add: deleteReport_def Let_def)
  moreover from this have "listReports pid ?s' = Inr ?rs"
    by (simp add: listReports_def)
  moreover have "length ?rs = length (reports p) - 1"
    using n by (rule splice1_length)
  moreover have "\<forall>j. j < nat i \<longrightarrow> ?rs ! j = reports p ! j"
    using n by (simp add: splice1_before)
  moreover have "\<forall>j. nat i \<le> j \<and> Suc j < length (reports p) \<longrightarrow> ?rs ! j = reports p ! Suc j"
    by (simp add: splice1_after)
  ultimately show "\<exists>s' rs'.
      deleteReport ns ts pid rid s = (Inr ''Report deleted successfully'', s') \<and>
      patients s' (JStr pid) = Some (p\<lparr>reports := rs'\<rparr>) \<and>
      listReports pid s' = Inr rs' \<and>
      length rs' = length (reports p) - 1 \<and>
      (\<forall>j. j < nat i \<longrightarrow> rs' ! j = reports p ! j) \<and>
      (\<forall>j. nat i \<le> j \<and> Suc j < length (reports p) \<longrightarrow> rs' ! j = reports p ! Suc j)"
    by blast
next
  assume "parseInt rid = None \<or>
    (\<exists>i. parseInt rid = Some i \<and> (i < 0 \<or> int (length (reports p)) \<le> i))"
  then show "deleteReport ns ts pid rid s = (Inl (Error 404 ''Report not found''), s)"
    using assms by (auto simp: deleteReport_def)
next
  fix n
  assume "n < length (reports p)"
  then show "\<exists>s'. deleteReport ns ts pid (decimal n) s = (Inr ''Report deleted successfully'', s') \<and>
      listReports pid s' = Inr (take n (reports p) @ drop (Suc n) (reports p))"
    using assms
    by (simp add: deleteReport_def parseInt_decimal listReports_def splice1_def Let_def)
next
  fix n
  assume "length (reports p) \<le> n"
  then show "deleteReport ns ts pid (decimal n) s = (Inl (Error 404 ''Report not found''), s)"
    using assms by (simp add: deleteReport_def parseInt_decimal)
qed

theorem report_index_laws_witness:
  "patients state1 (JStr ''p1'') = Some pat1 \<and>
   fst (addReport noNumbers ''t'' ''p1'' (JStr ''mri'') state1) =
     Inr [JStr ''x-ray clear'', JStr ''blood ok'', JStr ''mri''] \<and>
   parseInt ''0'' = Some 0 \<and>
   fst (deleteReport noNumbers ''t'' ''p1'' ''0'' state1) = Inr ''Report deleted successfully'' \<and>
   listReports ''p1'' (snd (deleteReport noNumbers ''t'' ''p1'' ''0'' state1)) =
     Inr [JStr ''blood ok''] \<and>
   parseInt ''2'' = Some 2 \<and>
   deleteReport noNumbers ''t'' ''p1'' ''2'' state1 = (Inl (Error 404 ''Report not found''), state1) \<and>
   parseInt ''-1'' = Some (- 1) \<and>
   deleteReport noNumbers ''t'' ''p1'' ''-1'' state1 = (Inl (Error 404 ''Report not found''), state1) \<and>
   parseInt ''first'' = None \<and>
   deleteReport noNumbers ''t'' ''p1'' ''first'' state1 =
     (Inl (Error 404 ''Report not found''), state1) \<and>
   decimal 1 = ''1'' \<and>
   fst (deleteReport noNumbers ''t'' ''p1'' ''1'' state1) = Inr ''Report deleted successfully'' \<and>
   listReports ''p1'' (snd (deleteReport noNumbers ''t'' ''p1'' ''1'' state1)) =
     Inr [JStr ''x-ray clear''] \<and>
   decimal 12 = ''12'' \<and>
   deleteReport noNumbers ''t'' ''p1'' ''12'' state1 =
     (Inl (Error 404 ''Report not found''), state1)"
proof -
  have p: "patients state1 (JStr ''p1'') = Some pat1"
    by (simp add: state1_def)
  have rs: "reports pat1 = [JStr ''x-ray clear'', JStr ''blood ok'']"
    by (simp add: pat1_def)
  note l = report_index_laws [OF p, where ns = noNumbers and ts = "''t''"]
  have a: "fst (addReport noNumbers ''t'' ''p1'' (JStr ''mri'') state1) =
     Inr [JStr ''x-ray clear'', JStr ''blood ok'', JStr ''mri'']"
    using l [where r = "JStr ''mri''" and rid = "''0''"] rs by auto
  obtain s' rs' where d:
    "deleteReport noNumbers ''t'' ''p1'' ''0'' state1 = (Inr ''Report deleted successfully'', s')"
    "listReports ''p1'' s' = Inr rs'" "length rs' = Suc 0" "rs' ! 0 = JStr ''blood ok''"
    using l [where rid = "''0''" and r = JNull] parseInt_0 rs by auto
  from d(3,4) have "rs' = [JStr ''blood ok'']"
    by (cases rs') auto
  with d have b:
    "fst (deleteReport noNumbers ''t'' ''p1'' ''0'' state1) = Inr ''Report deleted successfully''"
    "listReports ''p1'' (snd (deleteReport noNumbers ''t'' ''p1'' ''0'' state1)) =
       Inr [JStr ''blood ok'']"
    by simp_all
  have c: "deleteReport noNumbers ''t'' ''p1'' ''2'' state1 =
      (Inl (Error 404 ''Report not found''), state1)"
    using l [where rid = "''2''"] parseInt_2 rs by simp
  have e: "deleteReport noNumbers ''t'' ''p1'' ''-1'' state1 =
      (Inl (Error 404 ''Report not found''), state1)"
    using l [where rid = "''-1''"] parseInt_minus_1 rs by simp
  have f: "deleteReport noNumbers ''t'' ''p1'' ''first'' state1 =
      (Inl (Error 404 ''Report not found''), state1)"
    using l [where rid = "''first''"] parseInt_no_digit by simp
  have d1: "decimal 1 = ''1''" and d12: "decimal 12 = ''12''"
    by code_simp+
  note byIndex = l [where rid = "''0''" and r = JNull, THEN conjunct2, THEN conjunct2,
      THEN conjunct2]
  have "1 < length (reports pat1)"
    using rs by simp
  with byIndex [THEN conjunct1, rule_format, of 1] rs d1
  have g: "fst (deleteReport noNumbers ''t'' ''p1'' ''1'' state1) =
      Inr ''Report deleted successfully''"
    "listReports ''p1'' (snd (deleteReport noNumbers ''t'' ''p1'' ''1'' state1)) =
      Inr [JStr ''x-ray clear'']"
    by auto
  have "length (reports pat1) \<le> 12"
    using rs by simp
  with byIndex [THEN conjunct2, rule_format, of 12] d12
  have h: "deleteReport noNumbers ''t'' ''p1'' ''12'' state1 =
      (Inl (Error 404 ''Report not found''), state1)"
    by simp
  from p a b c e f g h d1 d12 parseInt_0 parseInt_2 parseInt_minus_1 parseInt_no_digit
  show ?thesis by simp
qed

section \<open>Updating a patient\<close>

text \<open>
  Claim C7. For a stored patient and input that passes the validation, \<open>updatePatient\<close>
  succeeds and returns and stores the old record with \<open>name\<close>, \<open>age\<close>, \<open>medicalHistory\<close>,
  \<open>currentTreatment\<close> and \<open>assignedDoctor\<close> overwritten by the request's values;
  \<open>patientId\<close> and \<open>reports\<close> are as before, and so are every other patient and every
  doctor.
\<close>

theorem updatePatient_frame:
  assumes "patients s (JStr pid) = Some p"
    and "pid \<noteq> []" and "truthy nm" and "truthy ag" and "truthy ad"
  shows
    "\<exists>p' s'. updatePatient ns ts pid nm ag mh ct ad s = (Inr p', s') \<and>
        p' = p\<lparr>name := nm, age := ag, medicalHistory := mh, currentTreatment := ct,
               assignedDoctor := ad\<rparr> \<and>
        patientId p' = patientId p \<and> reports p' = reports p \<and>
        patients s' (JStr pid) = Some p' \<and>
        (\<forall>k. k \<noteq> JStr pid \<longrightarrow> patients s' k = patients s k) \<and>
        doctors s' = doctors s"
  using assms
  by (simp add: updatePatient_def validatePatientInput_def Let_def)

theorem updatePatient_frame_witness:
  "patients state2 (JStr ''p1'') = Some pat1 \<and> ''p1'' \<noteq> [] \<and> truthy (JStr ''P1b'') \<and>
   truthy (JNum 41) \<and> truthy (JStr ''d2'') \<and>
   fst (updatePatient noNumbers ''t'' ''p1'' (JStr ''P1b'') (JNum 41) (JArr [JStr ''flu''])
          (JStr ''rest'') (JStr ''d2'') state2) =
     Inr \<lparr>patientId = ''p1'', name = JStr ''P1b'', age = JNum 41,
          medicalHistory = JArr [JStr ''flu''], currentTreatment = JStr ''rest'',
          assignedDoctor = JStr ''d2'', reports = [JStr ''x-ray clear'', JStr ''blood ok'']\<rparr> \<and>
   patients (snd (updatePatient noNumbers ''t'' ''p1'' (JStr ''P1b'') (JNum 41)
          (JArr [JStr ''flu'']) (JStr ''rest'') (JStr ''d2'') state2)) (JStr ''p2'') = Some pat2 \<and>
   doctors (snd (updatePatient noNumbers ''t'' ''p1'' (JStr ''P1b'') (JNum 41)
          (JArr [JStr ''flu'']) (JStr ''rest'') (JStr ''d2'') state2)) = doctors state2"
proof -
  have p: "patients state2 (JStr ''p1'') = Some pat1"
    and q: "patients state2 (JStr ''p2'') = Some pat2"
    by (simp_all add: state2_def)
  have t: "''p1'' \<noteq> []" "truthy (JStr ''P1b'')" "truthy (JNum 41)" "truthy (JStr ''d2'')"
    by simp_all
  from updatePatient_frame [OF p t, where ns = noNumbers and ts = "''t''"
      and mh = "JArr [JStr ''flu'']" and ct = "JStr ''rest''"] q
  have "fst (updatePatient noNumbers ''t'' ''p1'' (JStr ''P1b'') (JNum 41) (JArr [JStr ''flu''])
          (JStr ''rest'') (JStr ''d2'') state2) =
     Inr \<lparr>patientId = ''p1'', name = JStr ''P1b'', age = JNum 41,
          medicalHistory = JArr [JStr ''flu''], currentTreatment = JStr ''rest'',
          assignedDoctor = JStr ''d2'', reports = [JStr ''x-ray clear'', JStr ''blood ok'']\<rparr> \<and>
   patients (snd (updatePatient noNumbers ''t'' ''p1'' (JStr ''P1b'') (JNum 41)
          (JArr [JStr ''flu'']) (JStr ''rest'') (JStr ''d2'') state2)) (JStr ''p2'') = Some pat2 \<and>
   doctors (snd (updatePatient noNumbers ''t'' ''p1'' (JStr ''P1b'') (JNum 41)
          (JArr [JStr ''flu'']) (JStr ''rest'') (JStr ''d2'') state2)) = doctors state2"
    by (auto simp: pat1_def)
  with p t show ?thesis by simp
qed

text \<open>
  Claim C10. For a stored patient and truthy \<open>patientId\<close>, \<open>name\<close>, \<open>age\<close> and
  \<open>assignedDoctor\<close>, \<open>updatePatient\<close> succeeds whatever \<open>medicalHistory\<close> and
  \<open>currentTreatment\<close> are and stores them as they came; in particular, when both are
  absent the stored record has both absent. \<open>createPatient\<close> with an absent
  \<open>medicalHistory\<close> stores the empty array instead, and \<open>currentTreatment\<close> as it came.
\<close>

theorem updatePatient_no_default:
  assumes "patients s (JStr pid) = Some p"
    and "pid \<noteq> []" and "truthy nm" and "truthy ag" and "truthy ad" and "uuid \<noteq> []"
  shows
    "(\<exists>p' s'. updatePatient ns ts pid nm ag mh ct ad s = (Inr p', s') \<and>
        medicalHistory p' = mh \<and> currentTreatment p' = ct \<and>
        patients s' (JStr pid) = Some p') \<and>
     (\<exists>p' s'. updatePatient ns ts pid nm ag JUndefined JUndefined ad s = (Inr p', s') \<and>
        medicalHistory p' = JUndefined \<and> currentTreatment p' = JUndefined \<and>
        patients s' (JStr pid) = Some p') \<and>
     (\<exists>q s'. createPatient ns ts uuid nm ag JUndefined ct ad s = (Inr q, s') \<and>
        medicalHistory q = JArr [] \<and> currentTreatment q = ct \<and>
        patients s' (JStr uuid) = Some q)"
  using assms
  by (simp add: updatePatient_def createPatient_def validatePatientInput_def nullish_def Let_def)

theorem updatePatient_no_default_witness:
  "patients state1 (JStr ''p1'') = Some pat1 \<and> ''p1'' \<noteq> [] \<and> truthy (JStr ''P1'') \<and>
   truthy (JNum 41) \<and> truthy (JStr ''d1'') \<and> ''p3'' \<noteq> [] \<and>
   (\<exists>p' s'. updatePatient noNumbers ''t'' ''p1'' (JStr ''P1'') (JNum 41) JUndefined JUndefined
               (JStr ''d1'') state1 = (Inr p', s') \<and>
      medicalHistory p' = JUndefined \<and> currentTreatment p' = JUndefined \<and>
      getPatient ''p1'' s' = Inr p') \<and>
   (\<exists>q s'. createPatient noNumbers ''t'' ''p3'' (JStr ''P1'') (JNum 41) JUndefined JUndefined
               (JStr ''d1'') state1 = (Inr q, s') \<and>
      medicalHistory q = JArr [] \<and> currentTreatment q = JUndefined)"
proof -
  have p: "patients state1 (JStr ''p1'') = Some pat1"
    by (simp add: state1_def)
  have t: "''p1'' \<noteq> []" "truthy (JStr ''P1'')" "truthy (JNum 41)" "truthy (JStr ''d1'')"
    "''p3'' \<noteq> []"
    by simp_all
  from updatePatient_no_default [OF p t, where ns = noNumbers and ts = "''t''"
      and mh = JUndefined and ct = JUndefined]
  have "(\<exists>p' s'. updatePatient noNumbers ''t'' ''p1'' (JStr ''P1'') (JNum 41) JUndefined
               JUndefined (JStr ''d1'') state1 = (Inr p', s') \<and>
      medicalHistory p' = JUndefined \<and> currentTreatment p' = JUndefined \<and>
      getPatient ''p1'' s' = Inr p') \<and>
   (\<exists>q s'. createPatient noNumbers ''t'' ''p3'' (JStr ''P1'') (JNum 41) JUndefined JUndefined
               (JStr ''d1'') state1 = (Inr q, s') \<and>
      medicalHistory q = JArr [] \<and> currentTreatment q = JUndefined)"
    by (auto simp: getPatient_def)
  with p t show ?thesis by simp
qed

section \<open>The audit log\<close>

text \<open>
  Claim C5 says that no audit entry is ever changed or deleted and that every
  successful writing request adds exactly one new entry, also when two entries are made
  in the same instant. \<open>logAction\<close> stores the entry under the timestamp alone: two
  doctors created in the same instant are both stored, but the second request's entry
  replaces the first's, and the log holds one entry after the two requests.
\<close>

theorem audit_overwrite_same_instant:
  "doctors afterSecond (JStr ''d1'') = Some doc1 \<and>
   doctors afterSecond (JStr ''d2'') = Some doc2 \<and>
   auditLogs afterFirst sameInstant = Some ''d1 - Added new doctor'' \<and>
   auditLogs afterSecond sameInstant = Some ''d2 - Added new doctor'' \<and>
   dom (auditLogs afterFirst) = {sameInstant} \<and>
   dom (auditLogs afterSecond) = {sameInstant} \<and>
   card (dom (auditLogs afterSecond)) = card (dom (auditLogs afterFirst))"
  by (simp add: afterSecond_def afterFirst_def createDoctor_def emptyState_def doc1_def
      doc2_def Let_def)

section \<open>Deleting a patient: the permission gate\<close>

lemma toText_principalValue [simp]: "toText (principalValue t) = Some t"
  by (simp add: principalValue_def)

lemma principalValue_not_JStr [simp]: "principalValue t \<noteq> JStr k" "JStr k \<noteq> principalValue t"
  by (simp_all add: principalValue_def)

lemma principalValue_inject [simp]: "(principalValue t = principalValue u) = (t = u)"
  by (simp add: principalValue_def)

text \<open>
  Claim C1, as the code has it. When \<^verbatim>\<open>Principal.fromText\<close> rejects the requesting
  doctor's identifier, \<open>deletePatient\<close> answers status 500 and changes nothing. When it
  accepts it: the call fails with status 404 (NotFound) when no doctor is stored under
  that principal; it fails with status 403 (PermissionDenied) when the doctor's role is
  not exactly \<open>FullAccess\<close> (so for \<open>ReadOnly\<close> and \<open>ExternalConsultant\<close>), the memory is
  unchanged and the patient is retrieved as before; with role \<open>FullAccess\<close> it succeeds,
  whether or not a patient is stored under \<open>patientId\<close>, writes the audit entry under
  the timestamp of the call and leaves every other key but \<open>patientId\<close> as it was, and a
  following look-up of a \<open>patientId\<close> other than that timestamp fails with status 404.
\<close>

theorem deletePatient_gate:
  "(fromText (JStr did) = None \<longrightarrow>
      deletePatient fromText message ts pid did m =
        (Inl (Error 500 (message (NotAPrincipal (JStr did)))), m)) \<and>
   (\<forall>p. fromText (JStr did) = Some p \<and> \<not> present (m (principalValue p)) \<longrightarrow>
      deletePatient fromText message ts pid did m = (Inl (Error 404 ''Doctor not found''), m)) \<and>
   (\<forall>p doctor. fromText (JStr did) = Some p \<and> m (principalValue p) = Some doctor \<and>
        present (Some doctor) \<and> fieldOf ''role'' doctor \<noteq> JStr ''FullAccess'' \<longrightarrow>
      deletePatient fromText message ts pid did m =
        (Inl (Error 403 ''Doctor does not have permission to delete patient''), m) \<and>
      getPatientMem pid (snd (deletePatient fromText message ts pid did m)) = getPatientMem pid m) \<and>
   (\<forall>p doctor q. fromText (JStr did) = Some p \<and> m (principalValue p) = Some doctor \<and>
        present (Some doctor) \<and> fieldOf ''role'' doctor = JStr ''FullAccess'' \<and>
        fieldOf ''doctorId'' doctor = principalValue q \<longrightarrow>
      (\<exists>m'. deletePatient fromText message ts pid did m = (Inr ''Patient deleted successfully'', m') \<and>
            m' (JStr ts) = Some (Str (q @ '' - Deleted patient record: '' @ pid)) \<and>
            (\<forall>k. k \<noteq> JStr pid \<and> k \<noteq> JStr ts \<longrightarrow> m' k = m k) \<and>
            (pid \<noteq> ts \<longrightarrow> getPatientMem pid m' = Inl (Error 404 ''Patient not found''))))"
  by (auto simp: deletePatient_def getPatientMem_def logActionPrincipal_def Let_def
      split: option.splits)

lemma staff_entries:
  "staff (principalValue ''aaaaa-aa'') =
     Some (Obj [(''doctorId'', principalValue ''aaaaa-aa''), (''name'', JStr ''Dr. A''),
       (''role'', JStr ''FullAccess''), (''department'', JStr ''Cardio'')])"
  "staff (principalValue ''2vxsx-fae'') =
     Some (Obj [(''doctorId'', principalValue ''2vxsx-fae''), (''name'', JStr ''Dr. B''),
       (''role'', JStr ''ReadOnly''), (''department'', JStr ''Cardio'')])"
  "staff (principalValue ledger) = None"
  "staff (JStr earlier) = Some (Str ''aaaaa-aa - Added new doctor'')"
  "staff (JStr sameInstant) = Some (Str ''2vxsx-fae - Added new doctor'')"
  "staff (JStr ''p1'') = None"
  by (simp_all add: staff_def addDoctor_def principalFromText_def principalShape_def
      base32Char_def knownChecksum_def logActionPrincipal_def emptyMemory_def ledger_def
      earlier_def sameInstant_def Let_def)

lemma staff_p9: "staff (JStr ''p9'') = None"
  by (simp add: staff_def addDoctor_def principalFromText_def principalShape_def
      base32Char_def knownChecksum_def logActionPrincipal_def emptyMemory_def earlier_def
      sameInstant_def Let_def)

lemma known_principals:
  "principalFromText knownChecksum (JStr ''aaaaa-aa'') = Some ''aaaaa-aa''"
  "principalFromText knownChecksum (JStr ''2vxsx-fae'') = Some ''2vxsx-fae''"
  "principalFromText knownChecksum (JStr ledger) = Some ledger"
  "principalFromText knownChecksum (JStr ''dr-house'') = None"
  "principalFromText knownChecksum (JStr aUuid) = None"
  by (simp_all add: principalFromText_def principalShape_def base32Char_def knownChecksum_def
      ledger_def aUuid_def)


theorem deletePatient_gate_witness:
  "principalFromText knownChecksum (JStr ''dr-house'') = None \<and>
   deletePatient (principalFromText knownChecksum) exampleMessage later ''p1'' ''dr-house'' ward =
     (Inl (Error 500 ''not the text of a principal''), ward) \<and>
   principalFromText knownChecksum (JStr ledger) = Some ledger \<and>
   deletePatient (principalFromText knownChecksum) exampleMessage later ''p1'' ledger ward =
     (Inl (Error 404 ''Doctor not found''), ward) \<and>
   deletePatient (principalFromText knownChecksum) exampleMessage later ''p1'' ''2vxsx-fae'' ward =
     (Inl (Error 403 ''Doctor does not have permission to delete patient''), ward) \<and>
   getPatientMem ''p1'' ward = Inr patientP1 \<and>
   fst (deletePatient (principalFromText knownChecksum) exampleMessage later ''p1'' ''aaaaa-aa''
     ward) = Inr ''Patient deleted successfully'' \<and>
   getPatientMem ''p1'' (snd (deletePatient (principalFromText knownChecksum) exampleMessage
     later ''p1'' ''aaaaa-aa'' ward)) = Inl (Error 404 ''Patient not found'') \<and>
   snd (deletePatient (principalFromText knownChecksum) exampleMessage later ''p1'' ''aaaaa-aa''
     ward) (JStr later) = Some (Str ''aaaaa-aa - Deleted patient record: p1'') \<and>
   ward (JStr ''p9'') = None \<and>
   fst (deletePatient (principalFromText knownChecksum) exampleMessage later ''p9'' ''aaaaa-aa''
     ward) = Inr ''Patient deleted successfully''"
proof -
  let ?F = "principalFromText knownChecksum"
  note g = deletePatient_gate [where fromText = ?F and message = exampleMessage and ts = later
      and m = ward]
  have w: "ward (principalValue ''aaaaa-aa'') =
      Some (Obj [(''doctorId'', principalValue ''aaaaa-aa''), (''name'', JStr ''Dr. A''),
        (''role'', JStr ''FullAccess''), (''department'', JStr ''Cardio'')])"
    "ward (principalValue ''2vxsx-fae'') =
      Some (Obj [(''doctorId'', principalValue ''2vxsx-fae''), (''name'', JStr ''Dr. B''),
        (''role'', JStr ''ReadOnly''), (''department'', JStr ''Cardio'')])"
    "ward (principalValue ledger) = None"
    "ward (JStr ''p1'') = Some patientP1" "ward (JStr ''p9'') = None"
    using staff_entries(1,2,3) known_principals(1)
    by (simp_all add: ward_def addPatient_def logActionPrincipal_def patientP1_def staff_p9
        midday_def Let_def)
  have a: "deletePatient ?F exampleMessage later ''p1'' ''dr-house'' ward =
      (Inl (Error 500 ''not the text of a principal''), ward)"
    using g [where pid = "''p1''" and did = "''dr-house''"] known_principals(4) by simp
  have b: "deletePatient ?F exampleMessage later ''p1'' ledger ward =
      (Inl (Error 404 ''Doctor not found''), ward)"
    using g [where pid = "''p1''" and did = ledger] known_principals(3) w(3) by simp
  have p: "getPatientMem ''p1'' ward = Inr patientP1"
    using w(4) by (simp add: getPatientMem_def patientP1_def)
  have c: "deletePatient ?F exampleMessage later ''p1'' ''2vxsx-fae'' ward =
      (Inl (Error 403 ''Doctor does not have permission to delete patient''), ward)"
    using g [where pid = "''p1''" and did = "''2vxsx-fae''"] known_principals(2) w(2) by simp
  have l: "''p1'' \<noteq> later" "''p9'' \<noteq> later"
    by (simp_all add: later_def)
  have d: "fst (deletePatient ?F exampleMessage later ''p1'' ''aaaaa-aa'' ward) =
      Inr ''Patient deleted successfully''"
    "getPatientMem ''p1'' (snd (deletePatient ?F exampleMessage later ''p1'' ''aaaaa-aa'' ward)) =
      Inl (Error 404 ''Patient not found'')"
    "snd (deletePatient ?F exampleMessage later ''p1'' ''aaaaa-aa'' ward) (JStr later) =
      Some (Str ''aaaaa-aa - Deleted patient record: p1'')"
    using g [where pid = "''p1''" and did = "''aaaaa-aa''"] known_principals(1) w(1) l(1)
    by auto
  have e: "fst (deletePatient ?F exampleMessage later ''p9'' ''aaaaa-aa'' ward) =
      Inr ''Patient deleted successfully''"
    using g [where pid = "''p9''" and did = "''aaaaa-aa''"] known_principals(1) w(1) by auto
  from a b c d e p w(5) known_principals(3,4) show ?thesis by simp
qed

text \<open>
  \<^verbatim>\<open>patients.remove(patientId)\<close> removes what the memory holds under \<open>patientId\<close>,
  of whatever kind: with the timestamp of an audit entry as \<open>patientId\<close>, that entry.
\<close>

lemma deletePatient_removes_audit_entry:
  "ward (JStr midday) = Some (Str ''aaaaa-aa - Added patient record: p1'') \<and>
   fst (deletePatient (principalFromText knownChecksum) exampleMessage later midday ''aaaaa-aa''
     ward) = Inr ''Patient deleted successfully'' \<and>
   snd (deletePatient (principalFromText knownChecksum) exampleMessage later midday ''aaaaa-aa''
     ward) (JStr midday) = None"
  using staff_entries(1) known_principals(1)
  by (simp add: deletePatient_def ward_def addPatient_def logActionPrincipal_def midday_def
      later_def Let_def)

text \<open>
  The claim as it was stated, with NotFound whenever the requesting doctor does not
  exist, fails at an identifier that is not the text of a principal: no doctor is stored
  under it, and the answer is status 500.
\<close>

theorem deletePatient_unreadable_identifier:
  "principalFromText knownChecksum (JStr ''dr-house'') = None \<and>
   deletePatient (principalFromText knownChecksum) exampleMessage later ''p1'' ''dr-house'' ward =
     (Inl (Error 500 ''not the text of a principal''), ward) \<and>
   fst (deletePatient (principalFromText knownChecksum) exampleMessage later ''p1'' ''dr-house''
     ward) \<noteq> Inl (Error 404 ''Doctor not found'')"
  by (simp add: deletePatient_def principalFromText_def principalShape_def base32Char_def)

section \<open>Roles outside the enumeration\<close>

text \<open>
  Claim C9, as the code has it. \<open>createDoctor\<close> of index.ts accepts every non-empty
  string as the role and stores the doctor under the generated identifier. An
  identifier that \<^verbatim>\<open>Principal.fromText\<close> rejects, as every identifier \<^verbatim>\<open>uuidv4()\<close> returns
  is, never reaches the permission check of \<open>deletePatient\<close>: the answer is status 500.
  The check denies the doctors backup.ts stores itself: \<open>addDoctor\<close> accepts every
  non-empty role too, and for a doctor it stored with a role other than exactly
  \<open>FullAccess\<close>, \<open>deletePatient\<close> fails with status 403 and changes nothing.
\<close>

theorem role_is_any_text:
  assumes "truthy nm" and "r \<noteq> []" and "truthy dept"
  shows
    "(\<exists>m'. postDoctors message ns ts uuid nm (JStr r) dept m =
            (Inr (Obj [(''doctorId'', JStr uuid), (''name'', nm), (''role'', JStr r),
               (''department'', dept)]), m') \<and>
          (uuid \<noteq> ts \<longrightarrow>
             m' (JStr uuid) =
               Some (Obj [(''doctorId'', JStr uuid), (''name'', nm), (''role'', JStr r),
                 (''department'', dept)]))) \<and>
     (fromText (JStr uuid) = None \<longrightarrow>
        deletePatient fromText message ts' pid uuid m2 =
          (Inl (Error 500 (message (NotAPrincipal (JStr uuid)))), m2)) \<and>
     (\<forall>p. d \<noteq> [] \<and> fromText (JStr d) = Some p \<and> r \<noteq> ''FullAccess'' \<longrightarrow>
        (\<exists>m1. addDoctor fromText message ts (JStr d) nm (JStr r) dept m =
                (Inr ''Doctor added successfully'', m1) \<and>
              m1 (principalValue p) =
                Some (Obj [(''doctorId'', principalValue p), (''name'', nm), (''role'', JStr r),
                  (''department'', dept)]) \<and>
              deletePatient fromText message ts' pid d m1 =
                (Inl (Error 403 ''Doctor does not have permission to delete patient''), m1)))"
  using assms
  by (auto simp: postDoctors_def addDoctor_def deletePatient_def logActionMem_def
      logActionPrincipal_def Let_def)

theorem role_is_any_text_witness:
  "truthy (JStr ''Dr. C'') \<and> ''Intern'' \<noteq> [] \<and> truthy (JStr ''ER'') \<and>
   ''Intern'' \<noteq> ''FullAccess'' \<and> aUuid \<noteq> sameInstant \<and>
   intern (JStr aUuid) =
     Some (Obj [(''doctorId'', JStr aUuid), (''name'', JStr ''Dr. C''),
       (''role'', JStr ''Intern''), (''department'', JStr ''ER'')]) \<and>
   principalFromText knownChecksum (JStr aUuid) = None \<and>
   deletePatient (principalFromText knownChecksum) exampleMessage later ''p1'' aUuid intern =
     (Inl (Error 500 ''not the text of a principal''), intern) \<and>
   principalFromText knownChecksum (JStr ''2vxsx-fae'') = Some ''2vxsx-fae'' \<and>
   fst (addDoctor (principalFromText knownChecksum) exampleMessage sameInstant
     (JStr ''2vxsx-fae'') (JStr ''Dr. C'') (JStr ''Intern'') (JStr ''ER'') emptyMemory) =
     Inr ''Doctor added successfully'' \<and>
   fst (deletePatient (principalFromText knownChecksum) exampleMessage later ''p1'' ''2vxsx-fae''
     (snd (addDoctor (principalFromText knownChecksum) exampleMessage sameInstant
       (JStr ''2vxsx-fae'') (JStr ''Dr. C'') (JStr ''Intern'') (JStr ''ER'') emptyMemory))) =
     Inl (Error 403 ''Doctor does not have permission to delete patient'')"
proof -
  let ?F = "principalFromText knownChecksum"
  have t: "truthy (JStr ''Dr. C'')" "''Intern'' \<noteq> []" "truthy (JStr ''ER'')"
    by simp_all
  have n: "''Intern'' \<noteq> ''FullAccess''" "aUuid \<noteq> sameInstant" "''2vxsx-fae'' \<noteq> []"
    by (simp_all add: aUuid_def sameInstant_def)
  note r = role_is_any_text [OF t, where message = exampleMessage and ns = noNumbers
      and ts = sameInstant and uuid = aUuid and m = emptyMemory and fromText = ?F
      and ts' = later and pid = "''p1''" and d = "''2vxsx-fae''"]
  have a: "intern (JStr aUuid) =
     Some (Obj [(''doctorId'', JStr aUuid), (''name'', JStr ''Dr. C''),
       (''role'', JStr ''Intern''), (''department'', JStr ''ER'')])"
    using r [where ?m2.0 = intern] n(2) by (auto simp: intern_def)
  have b: "deletePatient ?F exampleMessage later ''p1'' aUuid intern =
     (Inl (Error 500 ''not the text of a principal''), intern)"
    using r [where ?m2.0 = intern] known_principals(5) by simp
  obtain m1 where c:
    "addDoctor ?F exampleMessage sameInstant (JStr ''2vxsx-fae'') (JStr ''Dr. C'') (JStr ''Intern'')
       (JStr ''ER'') emptyMemory = (Inr ''Doctor added successfully'', m1)"
    "deletePatient ?F exampleMessage later ''p1'' ''2vxsx-fae'' m1 =
       (Inl (Error 403 ''Doctor does not have permission to delete patient''), m1)"
    using r [where ?m2.0 = intern] n known_principals(2) by auto
  from t n a b c known_principals(2,5) show ?thesis by simp
qed

text \<open>
  The claim as it was stated, that a doctor \<open>createDoctor\<close> stored with another role is
  denied by the permission check, fails at such a doctor: the answer is not the
  check's 403.
\<close>

theorem uuid_doctor_not_reached:
  "intern (JStr aUuid) =
     Some (Obj [(''doctorId'', JStr aUuid), (''name'', JStr ''Dr. C''),
       (''role'', JStr ''Intern''), (''department'', JStr ''ER'')]) \<and>
   deletePatient (principalFromText knownChecksum) exampleMessage later ''p1'' aUuid intern =
     (Inl (Error 500 ''not the text of a principal''), intern) \<and>
   fst (deletePatient (principalFromText knownChecksum) exampleMessage later ''p1'' aUuid intern) \<noteq>
     Inl (Error 403 ''Doctor does not have permission to delete patient'')"
  by (simp add: intern_def postDoctors_def logActionMem_def deletePatient_def
      principalFromText_def principalShape_def base32Char_def aUuid_def sameInstant_def
      emptyMemory_def Let_def)

section \<open>Reassignment\<close>

text \<open>
  Claim C4 says that \<open>assignDoctor\<close> fails with NotFound when the doctor does not
  exist, and that on success \<open>assignedDoctor\<close> is the requested \<open>doctorId\<close>. The look-up
  of the doctor reads the memory the patients are stored in: with one patient and no
  doctor stored, the patient's own identifier given as \<open>doctorId\<close> is found, the call
  succeeds, and the patient is stored with \<open>assignedDoctor\<close> undefined.
\<close>

theorem assignDoctor_patient_as_doctor:
  "onePatient (JStr ''p1'') =
     Some (Obj [(''patientId'', JStr ''p1''), (''name'', JStr ''P1''), (''age'', JNum 40),
       (''medicalHistory'', JArr []), (''currentTreatment'', JUndefined),
       (''assignedDoctor'', JStr ''d1''), (''reports'', JArr [])]) \<and>
   onePatient (JStr earlier) = Some (Str ''d1 - Added patient record: p1'') \<and>
   dom onePatient = {JStr ''p1'', JStr earlier} \<and>
   fst patientAsDoctor = Inr ''Doctor assigned successfully'' \<and>
   snd patientAsDoctor (JStr ''p1'') =
     Some (Obj [(''patientId'', JStr ''p1''), (''name'', JStr ''P1''), (''age'', JNum 40),
       (''medicalHistory'', JArr []), (''currentTreatment'', JUndefined),
       (''assignedDoctor'', JUndefined), (''reports'', JArr [])]) \<and>
   snd patientAsDoctor (JStr sameInstant) = Some (Str ''undefined - Assigned to patient: p1'')"
  by (auto simp: patientAsDoctor_def onePatient_def assignDoctor_def postPatients_def
      validatePatientInput_def nullish_def logActionMem_def emptyMemory_def earlier_def
      sameInstant_def Let_def split: if_splits)

section \<open>The summary report\<close>

text \<open>
  The summary holds, in the order of the keys, the projection of every entry found
  under a key, of whatever kind that entry is.
\<close>

lemma forEachKey_every_entry:
  "forEachKey m ks reportData =
     reportData @ map (\<lambda>k. project (the (m k))) (filter (\<lambda>k. present (m k)) ks)"
  by (induction ks arbitrary: reportData) (auto split: option.splits)

text \<open>
  Claim C8 says that \<open>generateSummaryReport\<close> returns one projection per patient and
  appends exactly one audit entry. \<^verbatim>\<open>patients.keys()\<close> lists every key of the memory:
  with one doctor and no patient stored, the summary generated in the instant of the
  doctor's creation has two projections, of the audit entry and of the doctor; and its
  own audit entry replaces the one stored under that timestamp, so the memory holds the
  same keys before and after.
\<close>

theorem summary_lists_every_entry:
  "firstDoctor (JStr sameInstant) = Some (Str ''d1 - Added new doctor'') \<and>
   firstDoctor (JStr ''d1'') =
     Some (Obj [(''doctorId'', JStr ''d1''), (''name'', JStr ''Dr. A''),
       (''role'', JStr ''FullAccess''), (''department'', JStr ''Cardio'')]) \<and>
   dom firstDoctor = {JStr sameInstant, JStr ''d1''} \<and>
   keysInOrder [JStr sameInstant, JStr ''d1''] firstDoctor = [JStr sameInstant, JStr ''d1''] \<and>
   fst summaryInInstant =
     Inr [\<lparr>sumPatientId = JUndefined, sumName = JUndefined, sumCurrentTreatment = JUndefined,
            sumAssignedDoctor = JUndefined, sumReports = JUndefined\<rparr>,
          \<lparr>sumPatientId = JUndefined, sumName = JStr ''Dr. A'',
            sumCurrentTreatment = JUndefined, sumAssignedDoctor = JUndefined,
            sumReports = JUndefined\<rparr>] \<and>
   snd summaryInInstant (JStr sameInstant) = Some (Str ''admin - Generated patient reports'') \<and>
   dom (snd summaryInInstant) = dom firstDoctor"
  by (auto simp: summaryInInstant_def firstDoctor_def generateReports_def postDoctors_def
      keysInOrder_def project_def logActionMem_def emptyMemory_def sameInstant_def Let_def
      split: if_splits)

end